theory Spec2Isabelle
  imports Complex_Main "HOL-Library.Multiset" "HOL-Library.Sublist"
begin

section \<open>Numbers and the random source\<close>

text \<open>
  JavaScript numbers are modelled as real numbers; rounding is not modelled. The one place
  where the program can leave the reals is the division in the tempo score, which is written
  out below (\<open>NaN\<close>).

  \<open>Math.random()\<close> returns a number \<open>r\<close> with \<open>0 \<le> r < 1\<close>. The type \<open>draw\<close> holds
  exactly these numbers, and the random source is the sequence of the draws still to come.
\<close>

typedef draw = "{r::real. 0 \<le> r \<and> r < 1}"
  by (rule exI [of _ 0]) simp

setup_lifting type_definition_draw

lift_definition draw_zero :: draw is "0" by simp

lift_definition draw_half :: draw is "1/2" by simp

lift_definition draw_high :: draw is "9/10" by simp

type_synonym rng = "nat \<Rightarrow> draw"

definition Math_random :: "rng \<Rightarrow> real \<times> rng" where
  "Math_random g = (Rep_draw (g 0), \<lambda>n. g (Suc n))"

section \<open>The mood profile table\<close>

datatype feature = Energy | Valence | Danceability | Tempo

record audio_range =
  min_bound :: real
  max_bound :: real

record MoodMusicProfile =
  profile_genres :: "string list"
  profile_audioFeatures :: "feature \<Rightarrow> audio_range"
  profile_keywords :: "string list"

definition happy_profile :: MoodMusicProfile where
  "happy_profile = \<lparr>
     profile_genres = [''pop'', ''dance'', ''funk'', ''disco'', ''reggae''],
     profile_audioFeatures = (\<lambda>f. case f of
         Energy \<Rightarrow> \<lparr>min_bound = 6/10, max_bound = 1\<rparr>
       | Valence \<Rightarrow> \<lparr>min_bound = 6/10, max_bound = 1\<rparr>
       | Danceability \<Rightarrow> \<lparr>min_bound = 5/10, max_bound = 1\<rparr>
       | Tempo \<Rightarrow> \<lparr>min_bound = 100, max_bound = 180\<rparr>),
     profile_keywords = [''upbeat'', ''positive'', ''celebration'', ''sunshine'', ''party'']\<rparr>"

definition sad_profile :: MoodMusicProfile where
  "sad_profile = \<lparr>
     profile_genres = [''indie'', ''alternative'', ''folk'', ''blues'', ''singer-songwriter''],
     profile_audioFeatures = (\<lambda>f. case f of
         Energy \<Rightarrow> \<lparr>min_bound = 0, max_bound = 5/10\<rparr>
       | Valence \<Rightarrow> \<lparr>min_bound = 0, max_bound = 4/10\<rparr>
       | Danceability \<Rightarrow> \<lparr>min_bound = 0, max_bound = 5/10\<rparr>
       | Tempo \<Rightarrow> \<lparr>min_bound = 60, max_bound = 100\<rparr>),
     profile_keywords = [''melancholy'', ''heartbreak'', ''rain'', ''alone'', ''emotional'']\<rparr>"

definition energetic_profile :: MoodMusicProfile where
  "energetic_profile = \<lparr>
     profile_genres = [''rock'', ''electronic'', ''hip-hop'', ''punk'', ''metal''],
     profile_audioFeatures = (\<lambda>f. case f of
         Energy \<Rightarrow> \<lparr>min_bound = 7/10, max_bound = 1\<rparr>
       | Valence \<Rightarrow> \<lparr>min_bound = 4/10, max_bound = 1\<rparr>
       | Danceability \<Rightarrow> \<lparr>min_bound = 6/10, max_bound = 1\<rparr>
       | Tempo \<Rightarrow> \<lparr>min_bound = 120, max_bound = 200\<rparr>),
     profile_keywords = [''workout'', ''adrenaline'', ''power'', ''intense'', ''drive'']\<rparr>"

definition calm_profile :: MoodMusicProfile where
  "calm_profile = \<lparr>
     profile_genres = [''ambient'', ''classical'', ''new-age'', ''lo-fi'', ''acoustic''],
     profile_audioFeatures = (\<lambda>f. case f of
         Energy \<Rightarrow> \<lparr>min_bound = 0, max_bound = 4/10\<rparr>
       | Valence \<Rightarrow> \<lparr>min_bound = 3/10, max_bound = 7/10\<rparr>
       | Danceability \<Rightarrow> \<lparr>min_bound = 0, max_bound = 4/10\<rparr>
       | Tempo \<Rightarrow> \<lparr>min_bound = 60, max_bound = 100\<rparr>),
     profile_keywords = [''peaceful'', ''meditation'', ''sleep'', ''nature'', ''zen'']\<rparr>"

definition anxious_profile :: MoodMusicProfile where
  "anxious_profile = \<lparr>
     profile_genres = [''indie-rock'', ''alternative'', ''electronic'', ''experimental''],
     profile_audioFeatures = (\<lambda>f. case f of
         Energy \<Rightarrow> \<lparr>min_bound = 3/10, max_bound = 7/10\<rparr>
       | Valence \<Rightarrow> \<lparr>min_bound = 2/10, max_bound = 6/10\<rparr>
       | Danceability \<Rightarrow> \<lparr>min_bound = 3/10, max_bound = 7/10\<rparr>
       | Tempo \<Rightarrow> \<lparr>min_bound = 80, max_bound = 140\<rparr>),
     profile_keywords = [''restless'', ''uncertainty'', ''tension'', ''introspective'']\<rparr>"

definition nostalgic_profile :: MoodMusicProfile where
  "nostalgic_profile = \<lparr>
     profile_genres = [''oldies'', ''classic-rock'', ''soul'', ''jazz'', ''country''],
     profile_audioFeatures = (\<lambda>f. case f of
         Energy \<Rightarrow> \<lparr>min_bound = 2/10, max_bound = 7/10\<rparr>
       | Valence \<Rightarrow> \<lparr>min_bound = 3/10, max_bound = 8/10\<rparr>
       | Danceability \<Rightarrow> \<lparr>min_bound = 3/10, max_bound = 7/10\<rparr>
       | Tempo \<Rightarrow> \<lparr>min_bound = 70, max_bound = 130\<rparr>),
     profile_keywords = [''memories'', ''vintage'', ''throwback'', ''classic'', ''timeless'']\<rparr>"

text \<open>The own properties of the object literal \<open>moodProfiles\<close>.\<close>

definition moodProfiles :: "string \<Rightarrow> MoodMusicProfile option" where
  "moodProfiles key =
     (if key = ''happy'' then Some happy_profile
      else if key = ''sad'' then Some sad_profile
      else if key = ''energetic'' then Some energetic_profile
      else if key = ''calm'' then Some calm_profile
      else if key = ''anxious'' then Some anxious_profile
      else if key = ''nostalgic'' then Some nostalgic_profile
      else None)"

section \<open>Target feature calculator\<close>

type_synonym features = "feature \<rightharpoonup> real"

definition getTargetValue :: "audio_range \<Rightarrow> real \<Rightarrow> rng \<Rightarrow> real \<times> rng" where
  "getTargetValue range' strictness g =
     (let midpoint = (min_bound range' + max_bound range') / 2;
          variance = (max_bound range' - min_bound range') * (1 - strictness) * (5/10);
          (r, g') = Math_random g
      in (max (min_bound range') (min (max_bound range') (midpoint + (r - 5/10) * variance * 2)), g'))"

definition calculateTargetFeatures :: "(feature \<Rightarrow> audio_range) \<Rightarrow> real \<Rightarrow> rng \<Rightarrow> features \<times> rng" where
  "calculateTargetFeatures profileFeatures confidence g =
     (let strictness = max (3/10) confidence;
          (e, g1) = getTargetValue (profileFeatures Energy) strictness g;
          (v, g2) = getTargetValue (profileFeatures Valence) strictness g1;
          (d, g3) = getTargetValue (profileFeatures Danceability) strictness g2;
          (t, g4) = getTargetValue (profileFeatures Tempo) strictness g3
      in ([Energy \<mapsto> e, Valence \<mapsto> v, Danceability \<mapsto> d, Tempo \<mapsto> t], g4))"

text \<open>
  Property lookup on an object literal follows the prototype chain: a key that is not an own
  property but names a member of \<open>Object.prototype\<close> yields that member, which is neither
  \<open>undefined\<close> nor falsy and has none of the fields of a profile.
\<close>

datatype 'a property = Own 'a | Inherited | Undefined

definition Object_prototype_names :: "string list" where
  "Object_prototype_names =
     [''constructor'', ''hasOwnProperty'', ''isPrototypeOf'', ''propertyIsEnumerable'',
      ''toLocaleString'', ''toString'', ''valueOf'', ''__proto__'',
      ''__defineGetter__'', ''__defineSetter__'', ''__lookupGetter__'', ''__lookupSetter__'']"

definition moodProfiles_get :: "string \<Rightarrow> MoodMusicProfile property" where
  "moodProfiles_get key =
     (case moodProfiles key of
        Some profile \<Rightarrow> Own profile
      | None \<Rightarrow> if key \<in> set Object_prototype_names then Inherited else Undefined)"

section \<open>Track scorer\<close>

text \<open>
  A score is a number or \<open>NaN\<close>. \<open>NaN\<close> arises in one place only: the tempo score divides by
  the target tempo, and \<open>0 / 0\<close> is \<open>NaN\<close>. A positive difference over a zero target is
  \<open>Infinity\<close>, which \<open>Math.max(0, 1 - Infinity)\<close> turns into \<open>0\<close> at once.
\<close>

datatype jsnum = Num real | NaN

fun jadd :: "jsnum \<Rightarrow> jsnum \<Rightarrow> jsnum" where
  "jadd (Num x) (Num y) = Num (x + y)"
| "jadd _ _ = NaN"

fun jsub :: "jsnum \<Rightarrow> jsnum \<Rightarrow> jsnum" where
  "jsub (Num x) (Num y) = Num (x - y)"
| "jsub _ _ = NaN"

fun jtimes :: "jsnum \<Rightarrow> real \<Rightarrow> jsnum" where
  "jtimes (Num x) w = Num (x * w)"
| "jtimes NaN w = NaN"

text \<open>Division by a positive number, the only division of a running total.\<close>

fun jover :: "jsnum \<Rightarrow> real \<Rightarrow> jsnum" where
  "jover (Num x) w = Num (x / w)"
| "jover NaN w = NaN"

fun jpositive :: "jsnum \<Rightarrow> bool" where
  "jpositive (Num x) = (0 < x)"
| "jpositive NaN = False"

definition weights :: "(feature \<times> real) list" where
  "weights = [(Energy, 3/10), (Valence, 3/10), (Danceability, 2/10), (Tempo, 2/10)]"

definition featureScore :: "feature \<Rightarrow> real \<Rightarrow> real \<Rightarrow> jsnum" where
  "featureScore feature actual target =
     (if feature = Tempo then
        (let diff = \<bar>actual - target\<bar>
         in if target = 0 then (if diff = 0 then NaN else Num 0)
            else Num (max 0 (1 - diff / target)))
      else
        (let diff = \<bar>actual - target\<bar>
         in Num (max 0 (1 - diff))))"

definition scoreStep :: "features \<Rightarrow> features \<Rightarrow> feature \<times> real \<Rightarrow> jsnum \<times> real \<Rightarrow> jsnum \<times> real" where
  "scoreStep actualFeatures targetFeatures fw acc =
     (case (actualFeatures (fst fw), targetFeatures (fst fw)) of
        (Some a, Some t) \<Rightarrow>
          (jadd (fst acc) (jtimes (featureScore (fst fw) a t) (snd fw)), snd acc + snd fw)
      | _ \<Rightarrow> acc)"

definition calculateTrackScore :: "features \<Rightarrow> features \<Rightarrow> jsnum" where
  "calculateTrackScore actualFeatures targetFeatures =
     (let (totalScore, totalWeight) =
            fold (scoreStep actualFeatures targetFeatures) weights (Num 0, 0)
      in if totalWeight > 0 then jover totalScore totalWeight else Num 0)"

text \<open>
  The scorer in the words of the specification: the weighted average of the per-feature
  scores over the features present on both sides, and 0 when none is.
\<close>

definition present :: "features \<Rightarrow> features \<Rightarrow> feature \<Rightarrow> bool" where
  "present a t f = (a f \<noteq> None \<and> t f \<noteq> None)"

definition perFeature :: "feature \<Rightarrow> real \<Rightarrow> real \<Rightarrow> real" where
  "perFeature f a t =
     (if f = Tempo then max 0 (1 - \<bar>a - t\<bar> / t) else max 0 (1 - \<bar>a - t\<bar>))"

definition weightedAverage :: "features \<Rightarrow> features \<Rightarrow> real" where
  "weightedAverage a t =
     (let used = filter (\<lambda>fw. present a t (fst fw)) weights;
          total = sum_list (map snd used)
      in if total = 0 then 0
         else sum_list (map (\<lambda>fw. perFeature (fst fw) (the (a (fst fw))) (the (t (fst fw))) * snd fw) used)
              / total)"

section \<open>The external music service\<close>

text \<open>
  Of a track the core reads the id only; its other fields are carried along unread. An
  audio-features record is the map of its four scored fields.
\<close>

record SpotifyTrack =
  track_id :: string
  track_name :: string

record PlaylistDescription =
  baseDescription :: string
  moodDesc :: string
  confidencePercent :: int

record Playlist =
  playlist_id :: string
  playlist_name :: string
  playlist_description :: PlaylistDescription
  playlist_urls :: string

datatype js_error =
    UnknownMood string
  | NoTracksFound
  | TypeError
  | FailedToGetAudioFeatures
  | FailedToGetRecommendations
  | FailedToCreatePlaylist
  | FailedToAddTracks
  | FailedToSearchTracks
  | FailedToGeneratePlaylist

text \<open>
  Every request sent to the service, with its arguments. A run returns the list of the
  requests it made, in order.
\<close>

datatype call =
    GetAvailableGenres string
  | GetRecommendations string "string list" features nat
  | GetAudioFeatures string "string list"
  | CreatePlaylist string string string PlaylistDescription bool
  | AddTracksToPlaylist string string "string list"
  | SearchTracks string string nat

text \<open>
  The service's answers: \<open>None\<close> is a request that fails. \<open>audio_features\<close> is the
  \<open>audio_features\<close> array of the response body, with \<open>None\<close> for a \<open>null\<close> entry;
  \<open>today\<close> is the text of \<open>new Date().toLocaleDateString()\<close>.
\<close>

record world =
  genre_seeds :: "string \<Rightarrow> string list option"
  recommendations :: "string \<Rightarrow> string list \<Rightarrow> features \<Rightarrow> nat \<Rightarrow> SpotifyTrack list option"
  audio_features :: "string \<Rightarrow> string list \<Rightarrow> features option list option"
  new_playlist :: "string \<Rightarrow> string \<Rightarrow> string \<Rightarrow> PlaylistDescription \<Rightarrow> bool \<Rightarrow> Playlist option"
  add_tracks :: "string \<Rightarrow> string \<Rightarrow> string list \<Rightarrow> bool"
  search :: "string \<Rightarrow> string \<Rightarrow> nat \<Rightarrow> SpotifyTrack list option"
  today :: string

definition searchTracks :: "world \<Rightarrow> string \<Rightarrow> string \<Rightarrow> nat \<Rightarrow> (js_error + SpotifyTrack list) \<times> call list" where
  "searchTracks w accessToken query limit =
     (case search w accessToken query limit of
        Some items \<Rightarrow> (Inr items, [SearchTracks accessToken query limit])
      | None \<Rightarrow> (Inl FailedToSearchTracks, [SearchTracks accessToken query limit]))"

definition getAudioFeatures :: "world \<Rightarrow> string \<Rightarrow> string list \<Rightarrow> (js_error + features option list) \<times> call list" where
  "getAudioFeatures w accessToken trackIds =
     (case audio_features w accessToken trackIds of
        Some response \<Rightarrow>
          (Inr (filter (\<lambda>features. features \<noteq> None) response), [GetAudioFeatures accessToken trackIds])
      | None \<Rightarrow> (Inl FailedToGetAudioFeatures, [GetAudioFeatures accessToken trackIds]))"

definition createPlaylist ::
  "world \<Rightarrow> string \<Rightarrow> string \<Rightarrow> string \<Rightarrow> PlaylistDescription \<Rightarrow> bool \<Rightarrow> (js_error + Playlist) \<times> call list" where
  "createPlaylist w accessToken userId name description isPublic =
     (case new_playlist w accessToken userId name description isPublic of
        Some data \<Rightarrow> (Inr data, [CreatePlaylist accessToken userId name description isPublic])
      | None \<Rightarrow> (Inl FailedToCreatePlaylist, [CreatePlaylist accessToken userId name description isPublic]))"

definition addTracksToPlaylist :: "world \<Rightarrow> string \<Rightarrow> string \<Rightarrow> string list \<Rightarrow> (js_error + unit) \<times> call list" where
  "addTracksToPlaylist w accessToken playlistId trackUris =
     (if add_tracks w accessToken playlistId trackUris
      then (Inr (), [AddTracksToPlaylist accessToken playlistId trackUris])
      else (Inl FailedToAddTracks, [AddTracksToPlaylist accessToken playlistId trackUris]))"

text \<open>A target is sent only when it is truthy: present and not zero.\<close>

definition truthy :: "features \<Rightarrow> features" where
  "truthy audioFeatures =
     (\<lambda>f. case audioFeatures f of Some v \<Rightarrow> (if v = 0 then None else Some v) | None \<Rightarrow> None)"

definition getRecommendations ::
  "world \<Rightarrow> string \<Rightarrow> string list \<Rightarrow> features \<Rightarrow> nat \<Rightarrow> (js_error + SpotifyTrack list) \<times> call list" where
  "getRecommendations w accessToken seedGenres audioFeatures limit =
     (let seed_genres = take 5 seedGenres;
          targets = truthy audioFeatures
      in case recommendations w accessToken seed_genres targets limit of
           Some tracks \<Rightarrow> (Inr tracks, [GetRecommendations accessToken seed_genres targets limit])
         | None \<Rightarrow> (Inl FailedToGetRecommendations, [GetRecommendations accessToken seed_genres targets limit]))"

text \<open>A failed genre request is answered with the empty list, not with an error.\<close>

definition getAvailableGenres :: "world \<Rightarrow> string \<Rightarrow> string list \<times> call list" where
  "getAvailableGenres w accessToken =
     (case genre_seeds w accessToken of
        Some genres \<Rightarrow> (genres, [GetAvailableGenres accessToken])
      | None \<Rightarrow> ([], [GetAvailableGenres accessToken]))"

section \<open>Selection and ranking\<close>

record ScoredTrack =
  track :: SpotifyTrack
  score :: jsnum

text \<open>Reading an array at an index: \<open>undefined\<close> past the end, and \<open>undefined\<close> is falsy as \<open>null\<close> is.\<close>

definition js_index :: "'a option list \<Rightarrow> nat \<Rightarrow> 'a option" where
  "js_index xs i = (if i < length xs then xs ! i else None)"

definition scoreTracks :: "SpotifyTrack list \<Rightarrow> features option list \<Rightarrow> features \<Rightarrow> ScoredTrack list" where
  "scoreTracks tracks audioFeatures targetFeatures =
     map (\<lambda>(index, t).
            case js_index audioFeatures index of
              None \<Rightarrow> \<lparr>track = t, score = Num 0\<rparr>
            | Some features \<Rightarrow> \<lparr>track = t, score = calculateTrackScore features targetFeatures\<rparr>)
         (enumerate 0 tracks)"

text \<open>
  \<open>Array.prototype.sort\<close> is stable, and a comparator result of \<open>NaN\<close> counts as \<open>+0\<close>. With a
  comparator that is a consistent ordering the result is the one of stable insertion; this is
  the case whenever the scores are numbers.
\<close>

definition compareScore :: "ScoredTrack \<Rightarrow> ScoredTrack \<Rightarrow> jsnum" where
  "compareScore a b = jsub (score b) (score a)"

fun insertBy :: "('a \<Rightarrow> 'a \<Rightarrow> jsnum) \<Rightarrow> 'a \<Rightarrow> 'a list \<Rightarrow> 'a list" where
  "insertBy cmp x [] = [x]"
| "insertBy cmp x (y # ys) =
     (if jpositive (cmp x y) then y # insertBy cmp x ys else x # y # ys)"

definition sortBy :: "('a \<Rightarrow> 'a \<Rightarrow> jsnum) \<Rightarrow> 'a list \<Rightarrow> 'a list" where
  "sortBy cmp xs = foldr (insertBy cmp) xs []"

text \<open>
  The shuffle walks \<open>i\<close> from the last index down to 1 and swaps position \<open>i\<close> with position
  \<open>floor (r * (i + 1))\<close>, which is at most \<open>i\<close> for a draw \<open>r < 1\<close>.
\<close>

fun shuffleLoop :: "nat \<Rightarrow> 'a list \<Rightarrow> rng \<Rightarrow> 'a list \<times> rng" where
  "shuffleLoop 0 shuffled g = (shuffled, g)"
| "shuffleLoop (Suc k) shuffled g =
     (let i = Suc k;
          (r, g') = Math_random g;
          j = nat \<lfloor>r * (real i + 1)\<rfloor>
      in shuffleLoop k (shuffled[i := shuffled ! j, j := shuffled ! i]) g')"

definition shuffleArray :: "'a list \<Rightarrow> rng \<Rightarrow> 'a list \<times> rng" where
  "shuffleArray array g = shuffleLoop (length array - 1) array g"

definition rankTracks :: "SpotifyTrack list \<Rightarrow> features option list \<Rightarrow> features \<Rightarrow> ScoredTrack list" where
  "rankTracks tracks audioFeatures targetFeatures =
     sortBy compareScore (scoreTracks tracks audioFeatures targetFeatures)"

definition filterAndSelectTracks ::
  "world \<Rightarrow> SpotifyTrack list \<Rightarrow> features \<Rightarrow> string \<Rightarrow> nat \<Rightarrow> rng
   \<Rightarrow> (js_error + SpotifyTrack list) \<times> call list \<times> rng" where
  "filterAndSelectTracks w tracks targetFeatures accessToken targetCount g =
     (if length tracks = 0 then (Inl NoTracksFound, [], g)
      else
        (let trackIds = map track_id tracks
         in case getAudioFeatures w accessToken trackIds of
              (Inl e, calls) \<Rightarrow> (Inl e, calls, g)
            | (Inr audioFeatures, calls) \<Rightarrow>
                (let selectedTracks =
                       map track (take targetCount (rankTracks tracks audioFeatures targetFeatures));
                     (shuffled, g') = shuffleArray selectedTracks g
                 in (Inr shuffled, calls, g'))))"

section \<open>Playlist generation\<close>

text \<open>
  Of a mood analysis the core reads the primary emotion, the confidence and the raw text;
  the per-emotion scores are carried along unread.
\<close>

record MoodAnalysis =
  primaryEmotion :: string
  emotions :: "string \<rightharpoonup> real"
  confidence :: real
  rawText :: string

record GeneratedPlaylist =
  gp_id :: string
  gp_name :: string
  gp_description :: PlaylistDescription
  gp_tracks :: "SpotifyTrack list"
  gp_urls :: string

text \<open>The genre step: the profile's genres that the service offers, at most three, or \<open>pop\<close>.\<close>

definition filterGenres :: "string list \<Rightarrow> string list \<Rightarrow> string list" where
  "filterGenres profileGenres availableGenres =
     (let filteredGenres = take 3 (filter (\<lambda>genre. genre \<in> set availableGenres) profileGenres)
      in if length filteredGenres = 0 then filteredGenres @ [''pop''] else filteredGenres)"

text \<open>
  The genre step in the words of the specification: walk the profile's list in its order
  and keep what the service offers.
\<close>

primrec intersectInOrder :: "string list \<Rightarrow> string list \<Rightarrow> string list" where
  "intersectInOrder [] available = []"
| "intersectInOrder (g # gs) available =
     (if g \<in> set available then g # intersectInOrder gs available
      else intersectInOrder gs available)"

definition moodNames :: "string \<Rightarrow> string list option" where
  "moodNames key =
     (if key = ''happy'' then
        Some [''Sunshine Vibes'', ''Feel Good Hits'', ''Happy Hour'', ''Positivity Playlist'', ''Joyful Jams'']
      else if key = ''sad'' then
        Some [''Melancholy Moments'', ''Rainy Day Blues'', ''Heartbreak Hotel'', ''Emotional Journey'', ''Tears & Tunes'']
      else if key = ''energetic'' then
        Some [''Power Hour'', ''Adrenaline Rush'', ''High Energy Hits'', ''Pump It Up'', ''Electric Vibes'']
      else if key = ''calm'' then
        Some [''Peaceful Moments'', ''Zen Zone'', ''Tranquil Tunes'', ''Meditation Music'', ''Serenity Sounds'']
      else if key = ''anxious'' then
        Some [''Restless Mind'', ''Anxious Energy'', ''Introspective Indie'', ''Uncertain Times'', ''Tension & Release'']
      else if key = ''nostalgic'' then
        Some [''Memory Lane'', ''Throwback Therapy'', ''Vintage Vibes'', ''Golden Oldies'', ''Nostalgic Notes'']
      else None)"

definition moodDescriptions :: "string \<Rightarrow> string option" where
  "moodDescriptions key =
     (if key = ''happy'' then
        Some ''Uplifting tracks to keep your spirits high and energy positive.''
      else if key = ''sad'' then
        Some ''Contemplative songs that understand and embrace your current emotional state.''
      else if key = ''energetic'' then
        Some ''High-energy tracks to fuel your motivation and drive.''
      else if key = ''calm'' then
        Some ''Soothing melodies to help you relax and find inner peace.''
      else if key = ''anxious'' then
        Some ''Music that acknowledges restlessness while providing comfort.''
      else if key = ''nostalgic'' then
        Some ''Songs that capture the bittersweet beauty of memories and past times.''
      else None)"

text \<open>
  The name and the description are built only after the profile lookup has found an own
  property, so the emotion is one of the six keys there; the fallback texts are those of the
  source for a key that is absent.
\<close>

definition generatePlaylistName :: "world \<Rightarrow> MoodAnalysis \<Rightarrow> rng \<Rightarrow> string \<times> rng" where
  "generatePlaylistName w moodAnalysis g =
     (let names = (case moodNames (primaryEmotion moodAnalysis) of
                     Some ns \<Rightarrow> ns | None \<Rightarrow> [''Mixed Mood Music'']);
          (r, g') = Math_random g;
          randomName = names ! nat \<lfloor>r * real (length names)\<rfloor>
      in (randomName @ '' - '' @ today w, g'))"

definition generatePlaylistDescription :: "MoodAnalysis \<Rightarrow> PlaylistDescription" where
  "generatePlaylistDescription moodAnalysis =
     \<lparr>baseDescription =
        ''Generated based on your mood: '' @ [CHR 0x22] @ take 100 (rawText moodAnalysis)
          @ (if length (rawText moodAnalysis) > 100 then ''...'' else [])
          @ [CHR 0x22],
      moodDesc = (case moodDescriptions (primaryEmotion moodAnalysis) of
                    Some d \<Rightarrow> d | None \<Rightarrow> ''Curated tracks to match your current mood.''),
      confidencePercent = \<lfloor>confidence moodAnalysis * 100 + 1/2\<rfloor>\<rparr>"

text \<open>
  The body of the \<open>try\<close> block. With an inherited member for a profile the lookup check
  passes, the genre request is sent, and reading \<open>profile.genres.filter\<close> then fails.
\<close>

definition generatePlaylist_try ::
  "world \<Rightarrow> MoodAnalysis \<Rightarrow> string \<Rightarrow> string \<Rightarrow> rng
   \<Rightarrow> (js_error + GeneratedPlaylist) \<times> call list \<times> rng" where
  "generatePlaylist_try w moodAnalysis accessToken userId g =
     (case moodProfiles_get (primaryEmotion moodAnalysis) of
        Undefined \<Rightarrow> (Inl (UnknownMood (primaryEmotion moodAnalysis)), [], g)
      | Inherited \<Rightarrow>
          (let (availableGenres, c1) = getAvailableGenres w accessToken
           in (Inl TypeError, c1, g))
      | Own profile \<Rightarrow>
          (let (availableGenres, c1) = getAvailableGenres w accessToken;
               filteredGenres = filterGenres (profile_genres profile) availableGenres;
               (targetFeatures, g1) =
                  calculateTargetFeatures (profile_audioFeatures profile) (confidence moodAnalysis) g
           in case getRecommendations w accessToken filteredGenres targetFeatures 30 of
                (Inl e, c2) \<Rightarrow> (Inl e, c1 @ c2, g1)
              | (Inr recommendedTracks, c2) \<Rightarrow>
                  (case filterAndSelectTracks w recommendedTracks targetFeatures accessToken 15 g1 of
                     (Inl e, c3, g2) \<Rightarrow> (Inl e, c1 @ c2 @ c3, g2)
                   | (Inr selectedTracks, c3, g2) \<Rightarrow>
                       (let (playlistName, g3) = generatePlaylistName w moodAnalysis g2;
                            playlistDescription = generatePlaylistDescription moodAnalysis
                        in case createPlaylist w accessToken userId playlistName playlistDescription False of
                             (Inl e, c4) \<Rightarrow> (Inl e, c1 @ c2 @ c3 @ c4, g3)
                           | (Inr playlist, c4) \<Rightarrow>
                               (let trackUris = map (\<lambda>t. ''spotify:track:'' @ track_id t) selectedTracks
                                in case addTracksToPlaylist w accessToken (playlist_id playlist) trackUris of
                                     (Inl e, c5) \<Rightarrow> (Inl e, c1 @ c2 @ c3 @ c4 @ c5, g3)
                                   | (Inr u, c5) \<Rightarrow>
                                       (Inr \<lparr>gp_id = playlist_id playlist,
                                             gp_name = playlist_name playlist,
                                             gp_description = playlist_description playlist,
                                             gp_tracks = selectedTracks,
                                             gp_urls = playlist_urls playlist\<rparr>,
                                        c1 @ c2 @ c3 @ c4 @ c5, g3))))))"

text \<open>The \<open>catch\<close> clause replaces whatever was thrown by one fixed error.\<close>

definition generatePlaylist ::
  "world \<Rightarrow> MoodAnalysis \<Rightarrow> string \<Rightarrow> string \<Rightarrow> rng
   \<Rightarrow> (js_error + GeneratedPlaylist) \<times> call list \<times> rng" where
  "generatePlaylist w moodAnalysis accessToken userId g =
     (case generatePlaylist_try w moodAnalysis accessToken userId g of
        (Inl error, calls, g') \<Rightarrow> (Inl FailedToGeneratePlaylist, calls, g')
      | (Inr generated, calls, g') \<Rightarrow> (Inr generated, calls, g'))"

section \<open>Keyword search\<close>

fun findIndex :: "('a \<Rightarrow> bool) \<Rightarrow> 'a list \<Rightarrow> int" where
  "findIndex P [] = - 1"
| "findIndex P (x # xs) =
     (if P x then 0 else (let r = findIndex P xs in if r < 0 then - 1 else r + 1))"

text \<open>A search that fails is skipped; the loop goes on with the next query.\<close>

definition searchStep ::
  "world \<Rightarrow> string \<Rightarrow> string \<Rightarrow> SpotifyTrack list \<times> call list \<Rightarrow> SpotifyTrack list \<times> call list" where
  "searchStep w accessToken query acc =
     (case searchTracks w accessToken (''genre:'' @ query @ '' OR '' @ query) 10 of
        (Inr tracks, c) \<Rightarrow> (fst acc @ tracks, snd acc @ c)
      | (Inl e, c) \<Rightarrow> (fst acc, snd acc @ c))"

text \<open>
  With an inherited member for a profile, spreading \<open>profile.keywords\<close> fails before any
  search is sent; that read is outside the loop's \<open>try\<close>.
\<close>

definition searchByMoodKeywords ::
  "world \<Rightarrow> MoodAnalysis \<Rightarrow> string \<Rightarrow> (js_error + SpotifyTrack list) \<times> call list" where
  "searchByMoodKeywords w moodAnalysis accessToken =
     (case moodProfiles_get (primaryEmotion moodAnalysis) of
        Undefined \<Rightarrow> (Inr [], [])
      | Inherited \<Rightarrow> (Inl TypeError, [])
      | Own profile \<Rightarrow>
          (let searchQueries =
                 profile_keywords profile @ profile_genres profile @ [primaryEmotion moodAnalysis];
               (allTracks, calls) = fold (searchStep w accessToken) (take 5 searchQueries) ([], []);
               uniqueTracks =
                 map snd (filter (\<lambda>(index, t). int index = findIndex (\<lambda>u. track_id u = track_id t) allTracks)
                                 (enumerate 0 allTracks))
           in (Inr (take 30 uniqueTracks), calls)))"

section \<open>Notions used in the statements\<close>

text \<open>The position of a feature's draw among the four draws of the target calculator.\<close>

definition drawIndex :: "feature \<Rightarrow> nat" where
  "drawIndex f = (case f of Energy \<Rightarrow> 0 | Valence \<Rightarrow> 1 | Danceability \<Rightarrow> 2 | Tempo \<Rightarrow> 3)"

text \<open>Order on scores that are numbers; \<open>NaN\<close> is comparable with nothing.\<close>

fun jle :: "jsnum \<Rightarrow> jsnum \<Rightarrow> bool" where
  "jle (Num x) (Num y) = (x \<le> y)"
| "jle _ _ = False"

definition isNum :: "jsnum \<Rightarrow> bool" where
  "isNum s = (s \<noteq> NaN)"

text \<open>
  A small world for the concrete runs below: two candidates, of which the service knows the
  audio features of the second only, and these match the target exactly.
\<close>

definition track_a :: SpotifyTrack where
  "track_a = \<lparr>track_id = ''a'', track_name = ''first''\<rparr>"

definition track_b :: SpotifyTrack where
  "track_b = \<lparr>track_id = ''b'', track_name = ''second''\<rparr>"

definition ex_target :: features where
  "ex_target = [Energy \<mapsto> 8/10, Valence \<mapsto> 8/10, Danceability \<mapsto> 3/4, Tempo \<mapsto> 140]"

definition ex_world :: world where
  "ex_world = \<lparr>
     genre_seeds = (\<lambda>token. Some [''pop'', ''dance'', ''classical'']),
     recommendations = (\<lambda>token seeds targets limit. Some [track_a, track_b]),
     audio_features = (\<lambda>token ids. Some [None, Some ex_target]),
     new_playlist = (\<lambda>token user name description isPublic.
        Some \<lparr>playlist_id = ''p1'', playlist_name = name,
              playlist_description = description, playlist_urls = ''url''\<rparr>),
     add_tracks = (\<lambda>token playlist uris. True),
     search = (\<lambda>token query limit. Some []),
     today = ''1/1/2026''\<rparr>"

definition ex_mood :: "string \<Rightarrow> MoodAnalysis" where
  "ex_mood e = \<lparr>primaryEmotion = e, emotions = Map.empty, confidence = 9/10,
                 rawText = ''I feel amazing today!''\<rparr>"

section \<open>Target feature calculator: ranges\<close>

lemma table_ranges_ordered:
  "moodProfiles e = Some p \<Longrightarrow>
     min_bound (profile_audioFeatures p f) \<le> max_bound (profile_audioFeatures p f)"
  by (cases f)
     (auto simp: moodProfiles_def happy_profile_def sad_profile_def energetic_profile_def
        calm_profile_def anxious_profile_def nostalgic_profile_def split: if_splits)

lemma getTargetValue_clamped:
  "min_bound b \<le> max_bound b \<Longrightarrow>
     min_bound b \<le> fst (getTargetValue b s g) \<and> fst (getTargetValue b s g) \<le> max_bound b"
  by (simp add: getTargetValue_def Let_def split_beta)

lemma getTargetValue_rng: "snd (getTargetValue b s g) = (\<lambda>n. g (Suc n))"
  by (simp add: getTargetValue_def Let_def split_beta Math_random_def)

lemma calculateTargetFeatures_unfold:
  "fst (calculateTargetFeatures pf c g) f =
     Some (fst (getTargetValue (pf f) (max (3/10) c) (\<lambda>n. g (n + drawIndex f))))"
  by (cases f)
     (simp_all add: calculateTargetFeatures_def Let_def split_beta getTargetValue_rng
        drawIndex_def numeral_3_eq_3)

lemma getTargetValue_strict:
  "min_bound b \<le> max_bound b \<Longrightarrow> fst (getTargetValue b 1 g) = (min_bound b + max_bound b) / 2"
  by (simp add: getTargetValue_def Let_def split_beta)

text \<open>
  Claim C3. For each of the six profiles of the table, every confidence between 0 and 1 and
  every random source, each of the four targets is computed by \<open>getTargetValue\<close> at
  strictness \<open>max 0.3 confidence\<close> from the feature's own draw, and lies within the range
  that the profile declares for the feature.
\<close>

theorem calculateTargetFeatures_within_ranges:
  assumes "moodProfiles e = Some p" and "0 \<le> c" and "c \<le> 1"
  shows "\<exists>x. fst (calculateTargetFeatures (profile_audioFeatures p) c g) f = Some x
           \<and> x = fst (getTargetValue (profile_audioFeatures p f) (max (3/10) c) (\<lambda>n. g (n + drawIndex f)))
           \<and> min_bound (profile_audioFeatures p f) \<le> x
           \<and> x \<le> max_bound (profile_audioFeatures p f)"
  using table_ranges_ordered [OF assms(1), of f] getTargetValue_clamped
  by (simp add: calculateTargetFeatures_unfold)

theorem calculateTargetFeatures_within_ranges_witness:
  "moodProfiles ''sad'' = Some sad_profile \<and> (0::real) \<le> 1/10 \<and> (1/10::real) \<le> 1
   \<and> (\<exists>x. fst (calculateTargetFeatures (profile_audioFeatures sad_profile) (1/10) (\<lambda>n. draw_high)) Tempo = Some x
          \<and> x = fst (getTargetValue (profile_audioFeatures sad_profile Tempo) (max (3/10) (1/10))
                       (\<lambda>n. draw_high))
          \<and> min_bound (profile_audioFeatures sad_profile Tempo) \<le> x
          \<and> x \<le> max_bound (profile_audioFeatures sad_profile Tempo))"
proof -
  have h1: "moodProfiles ''sad'' = Some sad_profile" by (simp add: moodProfiles_def)
  have h2: "(0::real) \<le> 1/10" and h3: "(1/10::real) \<le> 1" by simp_all
  from calculateTargetFeatures_within_ranges [OF h1 h2 h3, where g = "\<lambda>n. draw_high" and f = Tempo]
  show ?thesis using h1 by simp
qed

text \<open>
  Claim C4. At confidence 1 the strictness is 1, the variance of every range is 0, and each
  of the four targets of a profile of the table is the midpoint of the feature's range,
  whatever the random source draws.
\<close>

theorem calculateTargetFeatures_full_confidence:
  assumes "moodProfiles e = Some p"
  shows "max (3/10) (1::real) = 1
       \<and> (max_bound (profile_audioFeatures p f) - min_bound (profile_audioFeatures p f))
            * (1 - max (3/10) 1) * (5/10) = 0
       \<and> fst (calculateTargetFeatures (profile_audioFeatures p) 1 g) f
           = Some ((min_bound (profile_audioFeatures p f) + max_bound (profile_audioFeatures p f)) / 2)"
  using table_ranges_ordered [OF assms(1), of f]
  by (simp add: calculateTargetFeatures_unfold getTargetValue_strict)

theorem calculateTargetFeatures_full_confidence_witness:
  "moodProfiles ''happy'' = Some happy_profile
   \<and> fst (calculateTargetFeatures (profile_audioFeatures happy_profile) 1 (\<lambda>n. draw_high)) Tempo = Some 140
   \<and> fst (calculateTargetFeatures (profile_audioFeatures happy_profile) 1 (\<lambda>n. draw_zero)) Tempo = Some 140"
proof -
  have h: "moodProfiles ''happy'' = Some happy_profile" by (simp add: moodProfiles_def)
  have v: "(min_bound (profile_audioFeatures happy_profile Tempo)
             + max_bound (profile_audioFeatures happy_profile Tempo)) / 2 = 140"
    by (simp add: happy_profile_def)
  have high: "fst (calculateTargetFeatures (profile_audioFeatures happy_profile) 1 (\<lambda>n. draw_high)) Tempo
                = Some 140"
    using calculateTargetFeatures_full_confidence [OF h, where g = "\<lambda>n. draw_high" and f = Tempo]
    unfolding v by (elim conjE)
  have zero: "fst (calculateTargetFeatures (profile_audioFeatures happy_profile) 1 (\<lambda>n. draw_zero)) Tempo
                = Some 140"
    using calculateTargetFeatures_full_confidence [OF h, where g = "\<lambda>n. draw_zero" and f = Tempo]
    unfolding v by (elim conjE)
  show ?thesis by (rule conjI [OF h conjI [OF high zero]])
qed

section \<open>Track scorer: the weighted average\<close>

lemma featureScore_Num:
  "f \<noteq> Tempo \<or> y \<noteq> 0 \<Longrightarrow> featureScore f x y = Num (perFeature f x y)"
  by (auto simp: featureScore_def perFeature_def Let_def)

text \<open>The loop invariant: both running totals are the sums over the features used so far.\<close>

lemma fold_scoreStep:
  assumes "t Tempo \<noteq> Some 0"
  shows "fold (scoreStep a t) ws (Num s, W) =
           (Num (s + sum_list (map (\<lambda>fw. perFeature (fst fw) (the (a (fst fw))) (the (t (fst fw))) * snd fw)
                                  (filter (\<lambda>fw. present a t (fst fw)) ws))),
            W + sum_list (map snd (filter (\<lambda>fw. present a t (fst fw)) ws)))"
proof (induction ws arbitrary: s W)
  case Nil
  show ?case by simp
next
  case (Cons fw ws)
  show ?case
  proof (cases "present a t (fst fw)")
    case True
    then obtain x y where xy: "a (fst fw) = Some x" "t (fst fw) = Some y"
      by (auto simp: present_def)
    with assms have "fst fw \<noteq> Tempo \<or> y \<noteq> 0" by auto
    then have fs: "featureScore (fst fw) x y = Num (perFeature (fst fw) x y)"
      by (rule featureScore_Num)
    have "scoreStep a t fw (Num s, W) = (Num (s + perFeature (fst fw) x y * snd fw), W + snd fw)"
      by (simp add: scoreStep_def xy fs)
    then show ?thesis using True xy by (simp add: Cons.IH add.assoc)
  next
    case False
    then have "scoreStep a t fw (Num s, W) = (Num s, W)"
      by (auto simp: scoreStep_def present_def split: option.splits)
    then show ?thesis using False by (simp add: Cons.IH)
  qed
qed

lemma used_weight_nonneg: "0 \<le> sum_list (map snd (filter P weights))"
  by (simp add: weights_def)

lemma score_is_weightedAverage:
  assumes "t Tempo \<noteq> Some 0"
  shows "calculateTrackScore a t = Num (weightedAverage a t)"
proof -
  let ?W = "sum_list (map snd (filter (\<lambda>fw. present a t (fst fw)) weights))"
  have "0 \<le> ?W" by (rule used_weight_nonneg)
  then have "(0 < ?W) = (?W \<noteq> 0)" by linarith
  then show ?thesis
    using assms by (simp add: calculateTrackScore_def weightedAverage_def fold_scoreStep Let_def)
qed

lemma perFeature_range:
  "f = Tempo \<longrightarrow> 0 < y \<Longrightarrow> 0 \<le> perFeature f x y \<and> perFeature f x y \<le> 1"
  by (auto simp: perFeature_def)

lemma weighted_sum_bounds:
  fixes ws :: "('a \<times> real) list" and p :: "'a \<times> real \<Rightarrow> real"
  assumes "\<And>fw. fw \<in> set ws \<Longrightarrow> 0 \<le> snd fw \<and> 0 \<le> p fw \<and> p fw \<le> 1"
  shows "0 \<le> sum_list (map (\<lambda>fw. p fw * snd fw) ws)
         \<and> sum_list (map (\<lambda>fw. p fw * snd fw) ws) \<le> sum_list (map snd ws)"
  using assms
proof (induction ws)
  case Nil
  show ?case by simp
next
  case (Cons fw ws)
  have a: "0 \<le> snd fw" "0 \<le> p fw" "p fw \<le> 1" using Cons.prems [of fw] by auto
  have "p fw * snd fw \<le> 1 * snd fw" using a by (intro mult_right_mono) auto
  moreover have "0 \<le> p fw * snd fw" using a by simp
  moreover have "0 \<le> sum_list (map (\<lambda>fw. p fw * snd fw) ws)
         \<and> sum_list (map (\<lambda>fw. p fw * snd fw) ws) \<le> sum_list (map snd ws)"
    using Cons.prems by (intro Cons.IH) auto
  ultimately show ?case by simp
qed

lemma weightedAverage_range:
  assumes "\<And>v. t Tempo = Some v \<Longrightarrow> 0 < v"
  shows "0 \<le> weightedAverage a t \<and> weightedAverage a t \<le> 1"
proof -
  let ?used = "filter (\<lambda>fw. present a t (fst fw)) weights"
  let ?p = "\<lambda>fw. perFeature (fst fw) (the (a (fst fw))) (the (t (fst fw)))"
  have b: "0 \<le> sum_list (map (\<lambda>fw. ?p fw * snd fw) ?used)
         \<and> sum_list (map (\<lambda>fw. ?p fw * snd fw) ?used) \<le> sum_list (map snd ?used)"
  proof (rule weighted_sum_bounds)
    fix fw assume m: "fw \<in> set ?used"
    then have pr: "present a t (fst fw)" and w: "fw \<in> set weights" by auto
    from w have "0 \<le> snd fw" by (auto simp: weights_def)
    moreover have "fst fw = Tempo \<longrightarrow> 0 < the (t (fst fw))"
      using pr assms by (auto simp: present_def)
    then have "0 \<le> ?p fw \<and> ?p fw \<le> 1" by (rule perFeature_range)
    ultimately show "0 \<le> snd fw \<and> 0 \<le> ?p fw \<and> ?p fw \<le> 1" by simp
  qed
  have "0 \<le> sum_list (map snd ?used)" by (rule used_weight_nonneg)
  with b show ?thesis
    by (auto simp: weightedAverage_def Let_def divide_le_eq_1)
qed

lemma score_all_missing:
  assumes "\<And>f. \<not> present a t f"
  shows "calculateTrackScore a t = Num 0"
proof -
  have "scoreStep a t fw acc = acc" for fw acc
  proof -
    have "a (fst fw) = None \<or> t (fst fw) = None"
      using assms [of "fst fw"] by (simp add: present_def)
    then show ?thesis by (auto simp: scoreStep_def split: option.splits)
  qed
  then show ?thesis by (simp add: calculateTrackScore_def weights_def)
qed

lemma score_identical:
  assumes "\<And>f. a f = t f" and "\<And>f. t f \<noteq> None" and "t Tempo \<noteq> Some 0"
  shows "calculateTrackScore a t = Num 1"
proof -
  have p: "\<And>fw. present a t (fst fw)" using assms by (simp add: present_def)
  have one: "\<And>f. perFeature f (the (a f)) (the (t f)) = 1"
    using assms by (auto simp: perFeature_def)
  show ?thesis
    using assms(3) by (simp add: score_is_weightedAverage weightedAverage_def p one weights_def)
qed

lemma score_zero_over_zero: "calculateTrackScore [Tempo \<mapsto> 0] [Tempo \<mapsto> 0] = NaN"
  by (simp add: calculateTrackScore_def weights_def scoreStep_def featureScore_def)

lemma ex_score: "calculateTrackScore ex_target ex_target = Num 1"
  by (simp add: calculateTrackScore_def weights_def scoreStep_def featureScore_def ex_target_def)

lemma scoreStep_missing: "\<not> present a t f \<Longrightarrow> scoreStep a t (f, w) acc = acc"
  by (auto simp: scoreStep_def present_def split: option.splits)

text \<open>
  Claim C5, as the code has it. (1) With all four features present and equal on both sides
  and a target tempo other than 0, the score is 1. (2) A feature missing on either side
  leaves both running totals as they are, the weighted sum and the weight total; with a
  target tempo other than 0 the score is the weighted average over the features present on
  both sides. (3) With no feature present on both sides the score is 0. (4) With a target
  tempo that is absent or positive, the score is a number between 0 and 1.
\<close>

theorem calculateTrackScore_properties:
  "((\<forall>f. a f = t f \<and> t f \<noteq> None) \<and> t Tempo \<noteq> Some 0 \<longrightarrow> calculateTrackScore a t = Num 1)
   \<and> (\<not> present a t f \<longrightarrow> scoreStep a t (f, w) acc = acc)
   \<and> (t Tempo \<noteq> Some 0 \<longrightarrow> calculateTrackScore a t = Num (weightedAverage a t))
   \<and> ((\<forall>f. \<not> present a t f) \<longrightarrow> calculateTrackScore a t = Num 0)
   \<and> ((\<forall>v. t Tempo = Some v \<longrightarrow> 0 < v) \<longrightarrow>
        (\<exists>s. calculateTrackScore a t = Num s \<and> 0 \<le> s \<and> s \<le> 1))"
proof (intro conjI impI)
  assume "(\<forall>f. a f = t f \<and> t f \<noteq> None) \<and> t Tempo \<noteq> Some 0"
  then show "calculateTrackScore a t = Num 1" by (intro score_identical) auto
next
  assume "\<not> present a t f"
  then show "scoreStep a t (f, w) acc = acc" by (rule scoreStep_missing)
next
  assume "t Tempo \<noteq> Some 0"
  then show "calculateTrackScore a t = Num (weightedAverage a t)" by (rule score_is_weightedAverage)
next
  assume "\<forall>f. \<not> present a t f"
  then show "calculateTrackScore a t = Num 0" by (intro score_all_missing) auto
next
  assume pos: "\<forall>v. t Tempo = Some v \<longrightarrow> 0 < v"
  then have "t Tempo \<noteq> Some 0" by auto
  then have "calculateTrackScore a t = Num (weightedAverage a t)" by (rule score_is_weightedAverage)
  moreover have "0 \<le> weightedAverage a t \<and> weightedAverage a t \<le> 1"
    using pos by (intro weightedAverage_range) auto
  ultimately show "\<exists>s. calculateTrackScore a t = Num s \<and> 0 \<le> s \<and> s \<le> 1" by blast
qed

theorem calculateTrackScore_properties_witness:
  "calculateTrackScore ex_target ex_target = Num 1
   \<and> calculateTrackScore ex_target ex_target = Num (weightedAverage ex_target ex_target)
   \<and> calculateTrackScore Map.empty ex_target = Num 0
   \<and> scoreStep [Energy \<mapsto> 1/2] ex_target (Tempo, 2/10) (Num (1/5), 3/10) = (Num (1/5), 3/10)
   \<and> (\<exists>s. calculateTrackScore [Energy \<mapsto> 1/2] ex_target = Num s \<and> 0 \<le> s \<and> s \<le> 1)"
proof -
  have same: "(\<forall>f. ex_target f = ex_target f \<and> ex_target f \<noteq> None) \<and> ex_target Tempo \<noteq> Some 0"
  proof (intro conjI allI)
    fix f show "ex_target f \<noteq> None" by (cases f) (simp_all add: ex_target_def)
  qed (simp_all add: ex_target_def)
  have none: "\<forall>f. \<not> present Map.empty ex_target f" by (simp add: present_def)
  have miss: "\<not> present [Energy \<mapsto> 1/2] ex_target Tempo" by (simp add: present_def)
  have pos: "\<forall>v. ex_target Tempo = Some v \<longrightarrow> 0 < v" by (simp add: ex_target_def)
  show ?thesis
    using same none miss pos
      calculateTrackScore_properties [of ex_target ex_target]
      calculateTrackScore_properties [of Map.empty ex_target]
      calculateTrackScore_properties [of "[Energy \<mapsto> 1/2]" ex_target Tempo "2/10" "(Num (1/5), 3/10)"]
    by blast
qed

text \<open>
  The claim's last clause without the condition on the target tempo fails: one track whose
  only known feature is a tempo of 100, scored against a target tempo of -100, has relative
  difference -2 and score 3.
\<close>

theorem calculateTrackScore_exceeds_one:
  "calculateTrackScore [Tempo \<mapsto> 100] [Tempo \<mapsto> - 100] = Num 3 \<and> \<not> (3::real) \<le> 1"
  by (simp add: calculateTrackScore_def weights_def scoreStep_def featureScore_def)

section \<open>Selection: scoring, ranking, shuffling\<close>

lemma length_scoreTracks: "length (scoreTracks tracks af t) = length tracks"
  by (simp add: scoreTracks_def)

lemma nth_scoreTracks:
  "i < length tracks \<Longrightarrow>
     scoreTracks tracks af t ! i =
       (case js_index af i of
          None \<Rightarrow> \<lparr>track = tracks ! i, score = Num 0\<rparr>
        | Some features \<Rightarrow> \<lparr>track = tracks ! i, score = calculateTrackScore features t\<rparr>)"
  by (simp add: scoreTracks_def nth_enumerate_eq)

lemma map_track_scoreTracks: "map track (scoreTracks tracks af t) = tracks"
  by (rule nth_equalityI) (auto simp: length_scoreTracks nth_scoreTracks split: option.splits)

text \<open>
  The scoring step taken alone: a candidate at whose index the consumed list has no record
  gets score 0 and stays in the pool.
\<close>

lemma scoreTracks_no_record:
  "i < length tracks \<Longrightarrow> js_index af i = None \<Longrightarrow>
     scoreTracks tracks af t ! i = \<lparr>track = tracks ! i, score = Num 0\<rparr>"
  by (simp add: nth_scoreTracks)

lemma scoreTracks_numbers:
  assumes "t Tempo \<noteq> Some 0" and "x \<in> set (scoreTracks tracks af t)"
  shows "isNum (score x)"
proof -
  obtain i where i: "i < length tracks" "x = scoreTracks tracks af t ! i"
    using assms(2) by (auto simp: in_set_conv_nth length_scoreTracks)
  show ?thesis using assms(1) i
    by (auto simp: nth_scoreTracks isNum_def score_is_weightedAverage split: option.splits)
qed

text \<open>What the feature request hands to the scorer: the response without its \<open>null\<close> entries.\<close>

lemma getAudioFeatures_result:
  "audio_features w accessToken trackIds = Some response \<Longrightarrow>
     fst (getAudioFeatures w accessToken trackIds) = Inr (filter (\<lambda>features. features \<noteq> None) response)"
  by (simp add: getAudioFeatures_def)

lemma getAudioFeatures_complete_response:
  assumes "audio_features w accessToken trackIds = Some response" and "None \<notin> set response"
  shows "fst (getAudioFeatures w accessToken trackIds) = Inr response"
proof -
  have "filter (\<lambda>features. features \<noteq> None) response = response"
    using assms(2) by (intro filter_True) (metis option.exhaust)
  then show ?thesis using assms(1) by (simp add: getAudioFeatures_def)
qed

lemma draw_index_le: "nat \<lfloor>Rep_draw d * (real i + 1)\<rfloor> \<le> i"
proof -
  have r: "0 \<le> Rep_draw d" "Rep_draw d < 1" using Rep_draw [of d] by auto
  have "Rep_draw d * (real i + 1) < 1 * (real i + 1)"
    using r by (intro mult_strict_right_mono) auto
  then have "\<lfloor>Rep_draw d * (real i + 1)\<rfloor> < int i + 1"
    by (subst floor_less_iff) simp
  then show ?thesis by linarith
qed

lemma shuffleLoop_perm:
  "k < length xs \<Longrightarrow> mset (fst (shuffleLoop k xs g)) = mset xs"
proof (induction k arbitrary: xs g)
  case 0
  show ?case by simp
next
  case (Suc k)
  let ?j = "nat \<lfloor>Rep_draw (g 0) * (real (Suc k) + 1)\<rfloor>"
  let ?xs = "xs[Suc k := xs ! ?j, ?j := xs ! Suc k]"
  have j: "?j < length xs" using draw_index_le [of "g 0" "Suc k"] Suc.prems by linarith
  have "mset ?xs = mset xs" using Suc.prems j by (simp add: mset_swap)
  moreover have "k < length ?xs" using Suc.prems by simp
  ultimately show ?case using Suc.IH [of ?xs]
    by (simp add: Math_random_def Let_def)
qed

lemma shuffleArray_perm: "mset (fst (shuffleArray xs g)) = mset xs"
proof (cases xs)
  case Nil
  then show ?thesis by (simp add: shuffleArray_def)
next
  case (Cons x xs')
  then show ?thesis unfolding shuffleArray_def by (intro shuffleLoop_perm) simp
qed

lemma length_shuffleArray: "length (fst (shuffleArray xs g)) = length xs"
  using shuffleArray_perm [of xs g] by (metis size_mset)

lemma mset_insertBy: "mset (insertBy cmp x ys) = add_mset x (mset ys)"
  by (induction ys) auto

lemma mset_sortBy: "mset (sortBy cmp xs) = mset xs"
  by (induction xs) (auto simp: sortBy_def mset_insertBy)

lemma length_sortBy: "length (sortBy cmp xs) = length xs"
  using mset_sortBy [of cmp xs] by (metis size_mset)

lemma set_sortBy: "set (sortBy cmp xs) = set xs"
  using mset_sortBy [of cmp xs] by (metis set_mset_mset)

lemma set_insertBy: "set (insertBy cmp x ys) = insert x (set ys)"
  using mset_insertBy [of cmp x ys] by (metis set_mset_mset set_mset_add_mset_insert)

text \<open>An element moves past another only when their scores differ: equal scores keep their order.\<close>

lemma insertBy_stable:
  "filter (\<lambda>y. score y = k) (insertBy compareScore x ys) = filter (\<lambda>y. score y = k) (x # ys)"
proof (induction ys)
  case Nil
  show ?case by simp
next
  case (Cons y ys)
  show ?case
  proof (cases "jpositive (compareScore x y)")
    case True
    then have "score x \<noteq> score y"
      by (cases "score x"; cases "score y") (auto simp: compareScore_def)
    then show ?thesis using True Cons.IH by auto
  next
    case False
    then show ?thesis by simp
  qed
qed

lemma sortBy_stable:
  "filter (\<lambda>y. score y = k) (sortBy compareScore xs) = filter (\<lambda>y. score y = k) xs"
proof (induction xs)
  case Nil
  show ?case by (simp add: sortBy_def)
next
  case (Cons x xs)
  have "sortBy compareScore (x # xs) = insertBy compareScore x (sortBy compareScore xs)"
    by (simp add: sortBy_def)
  then show ?case using Cons.IH by (simp add: insertBy_stable)
qed

lemma insertBy_sorted:
  assumes "sorted_wrt (\<lambda>a b. jle (score b) (score a)) ys"
    and "isNum (score x)" and "\<And>y. y \<in> set ys \<Longrightarrow> isNum (score y)"
  shows "sorted_wrt (\<lambda>a b. jle (score b) (score a)) (insertBy compareScore x ys)"
  using assms
proof (induction ys)
  case Nil
  show ?case by simp
next
  case (Cons y ys)
  obtain p where p: "score x = Num p"
    using Cons.prems(2) by (cases "score x") (auto simp: isNum_def)
  obtain q where q: "score y = Num q"
    using Cons.prems(3) [of y] by (cases "score y") (auto simp: isNum_def)
  show ?case
  proof (cases "jpositive (compareScore x y)")
    case True
    then have lt: "p < q" by (simp add: compareScore_def p q)
    have ih: "sorted_wrt (\<lambda>a b. jle (score b) (score a)) (insertBy compareScore x ys)"
      using Cons.prems by (intro Cons.IH) auto
    have "\<And>z. z \<in> set (insertBy compareScore x ys) \<Longrightarrow> jle (score z) (score y)"
      using Cons.prems(1) lt by (auto simp: set_insertBy p q)
    then show ?thesis using True ih by simp
  next
    case False
    then have le: "q \<le> p" by (simp add: compareScore_def p q)
    have "jle (score z) (score x)" if zin: "z \<in> set ys" for z
    proof -
      obtain r where r: "score z = Num r"
        using Cons.prems(3) [of z] zin by (cases "score z") (auto simp: isNum_def)
      have "jle (score z) (score y)" using Cons.prems(1) zin by auto
      then show ?thesis using le by (simp add: p q r)
    qed
    then show ?thesis using False Cons.prems(1) le by (simp add: p q)
  qed
qed

lemma sortBy_sorted:
  assumes "\<And>y. y \<in> set xs \<Longrightarrow> isNum (score y)"
  shows "sorted_wrt (\<lambda>a b. jle (score b) (score a)) (sortBy compareScore xs)"
  using assms
proof (induction xs)
  case Nil
  show ?case by (simp add: sortBy_def)
next
  case (Cons x xs)
  have s: "sortBy compareScore (x # xs) = insertBy compareScore x (sortBy compareScore xs)"
    by (simp add: sortBy_def)
  show ?case unfolding s
  proof (rule insertBy_sorted)
    show "sorted_wrt (\<lambda>a b. jle (score b) (score a)) (sortBy compareScore xs)"
      using Cons.prems by (intro Cons.IH) auto
    show "isNum (score x)" using Cons.prems by simp
    show "\<And>y. y \<in> set (sortBy compareScore xs) \<Longrightarrow> isNum (score y)"
      using Cons.prems by (simp add: set_sortBy)
  qed
qed

lemma ex_scored:
  "scoreTracks [track_a, track_b] [Some ex_target] ex_target
     = [\<lparr>track = track_a, score = Num 1\<rparr>, \<lparr>track = track_b, score = Num 0\<rparr>]"
  by (simp add: scoreTracks_def enumerate_simps js_index_def ex_score)

text \<open>
  Claim C1. The list of audio-feature results that the scorer reads is aligned by position
  with the candidates: its i-th element is the record (or \<open>null\<close>) of the i-th candidate.
  The code does not keep this. The service answers the request for the candidates \<open>a\<close> and
  \<open>b\<close> with \<open>[null, F]\<close>: nothing for \<open>a\<close>, the record \<open>F\<close> for \<open>b\<close>.
  \<open>getAudioFeatures\<close> removes the \<open>null\<close> and returns \<open>[F]\<close>, so the scorer reads \<open>F\<close>
  at index 0, for \<open>a\<close>, and nothing at index 1, for \<open>b\<close>.
\<close>

theorem getAudioFeatures_shifts_records:
  "audio_features ex_world ''token'' (map track_id [track_a, track_b]) = Some [None, Some ex_target]
   \<and> fst (getAudioFeatures ex_world ''token'' (map track_id [track_a, track_b])) = Inr [Some ex_target]
   \<and> js_index [Some ex_target] 0 = Some ex_target
   \<and> js_index [Some ex_target] 1 = None"
  by (simp add: ex_world_def getAudioFeatures_def js_index_def)

text \<open>
  Claim C2. A candidate for which the feature lookup returned \<open>null\<close> scores exactly 0,
  ranks after every candidate of positive score and stays in the scored pool. The pool keeps
  its size (\<open>length_scoreTracks\<close>) and the scoring step gives 0 wherever it finds no record
  (\<open>scoreTracks_no_record\<close>), but it does not find the \<open>null\<close> where the service put it. In the
  run below the service has no features for \<open>a\<close> and features that match the target for
  \<open>b\<close>: \<open>a\<close> is scored 1 with the record of \<open>b\<close>, \<open>b\<close> is scored 0, \<open>a\<close> ranks first, and
  a selection of one track is \<open>a\<close>.
\<close>

theorem null_features_candidate_scored_with_next_record:
  "audio_features ex_world ''token'' (map track_id [track_a, track_b]) = Some [None, Some ex_target]
   \<and> fst (getAudioFeatures ex_world ''token'' (map track_id [track_a, track_b])) = Inr [Some ex_target]
   \<and> scoreTracks [track_a, track_b] [Some ex_target] ex_target
       = [\<lparr>track = track_a, score = Num 1\<rparr>, \<lparr>track = track_b, score = Num 0\<rparr>]
   \<and> rankTracks [track_a, track_b] [Some ex_target] ex_target
       = [\<lparr>track = track_a, score = Num 1\<rparr>, \<lparr>track = track_b, score = Num 0\<rparr>]
   \<and> fst (filterAndSelectTracks ex_world [track_a, track_b] ex_target ''token'' 1 (\<lambda>n. draw_zero))
       = Inr [track_a]"
  by (simp add: ex_scored rankTracks_def sortBy_def compareScore_def filterAndSelectTracks_def
      getAudioFeatures_def ex_world_def shuffleArray_def Let_def)

text \<open>
  Claim C6. On the empty candidate list the selection fails with the no-tracks error, and
  the list of requests made is empty: the feature request is not sent and nothing is scored.
\<close>

theorem filterAndSelectTracks_empty:
  "filterAndSelectTracks w [] targetFeatures accessToken targetCount g = (Inl NoTracksFound, [], g)"
  by (simp add: filterAndSelectTracks_def)

text \<open>
  Claim C9. For a non-empty candidate list whose feature request is answered, any target
  count and any random source, the selection returns a permutation of the first
  \<open>targetCount\<close> tracks of the ranking, of length \<open>min targetCount (length tracks)\<close>. The
  ranking is a permutation of the scored candidates, descending by score, in which
  candidates of equal score keep the order of the candidate list. The target count is a
  natural number. The target tempo is not 0, as for every target the calculator produces, so
  that all scores are numbers.
\<close>

theorem filterAndSelectTracks_permutation_of_top_ranked:
  assumes "tracks \<noteq> []"
    and "audio_features w accessToken (map track_id tracks) = Some response"
    and "targetFeatures Tempo \<noteq> Some 0"
  shows "let scored = scoreTracks tracks (filter (\<lambda>features. features \<noteq> None) response) targetFeatures;
             ranked = sortBy compareScore scored
         in (\<exists>selected g'.
               filterAndSelectTracks w tracks targetFeatures accessToken targetCount g
                 = (Inr selected, [GetAudioFeatures accessToken (map track_id tracks)], g')
               \<and> mset selected = mset (map track (take targetCount ranked))
               \<and> length selected = min targetCount (length tracks))
            \<and> mset ranked = mset scored
            \<and> sorted_wrt (\<lambda>a b. jle (score b) (score a)) ranked
            \<and> (\<forall>k. filter (\<lambda>x. score x = k) ranked = filter (\<lambda>x. score x = k) scored)
            \<and> map track scored = tracks"
proof -
  let ?af = "filter (\<lambda>features. features \<noteq> None) response"
  let ?scored = "scoreTracks tracks ?af targetFeatures"
  let ?ranked = "sortBy compareScore ?scored"
  let ?sel = "map track (take targetCount ?ranked)"
  have run: "filterAndSelectTracks w tracks targetFeatures accessToken targetCount g
        = (Inr (fst (shuffleArray ?sel g)), [GetAudioFeatures accessToken (map track_id tracks)],
           snd (shuffleArray ?sel g))"
    using assms(1,2)
    by (simp add: filterAndSelectTracks_def getAudioFeatures_def rankTracks_def Let_def split_beta)
  have perm: "mset (fst (shuffleArray ?sel g)) = mset ?sel" by (rule shuffleArray_perm)
  have len: "length (fst (shuffleArray ?sel g)) = min targetCount (length tracks)"
    by (simp add: length_shuffleArray length_sortBy length_scoreTracks min.commute)
  have sorted: "sorted_wrt (\<lambda>a b. jle (score b) (score a)) ?ranked"
    using assms(3) by (intro sortBy_sorted scoreTracks_numbers)
  show ?thesis
    unfolding Let_def
    using run perm len sorted mset_sortBy [of compareScore ?scored]
      sortBy_stable [of _ ?scored] map_track_scoreTracks [of tracks ?af targetFeatures]
    by blast
qed

theorem filterAndSelectTracks_permutation_of_top_ranked_witness:
  "[track_a, track_b] \<noteq> []
   \<and> audio_features ex_world ''token'' (map track_id [track_a, track_b]) = Some [None, Some ex_target]
   \<and> ex_target Tempo \<noteq> Some 0
   \<and> (let scored = scoreTracks [track_a, track_b]
                      (filter (\<lambda>features. features \<noteq> None) [None, Some ex_target]) ex_target;
           ranked = sortBy compareScore scored
       in (\<exists>selected g'.
             filterAndSelectTracks ex_world [track_a, track_b] ex_target ''token'' 1 (\<lambda>n. draw_zero)
               = (Inr selected, [GetAudioFeatures ''token'' (map track_id [track_a, track_b])], g')
             \<and> mset selected = mset (map track (take 1 ranked))
             \<and> length selected = min 1 (length [track_a, track_b]))
          \<and> mset ranked = mset scored
          \<and> sorted_wrt (\<lambda>a b. jle (score b) (score a)) ranked
          \<and> (\<forall>k. filter (\<lambda>x. score x = k) ranked = filter (\<lambda>x. score x = k) scored)
          \<and> map track scored = [track_a, track_b])"
proof -
  have h1: "[track_a, track_b] \<noteq> []" by simp
  have h2: "audio_features ex_world ''token'' (map track_id [track_a, track_b])
              = Some [None, Some ex_target]"
    by (simp add: ex_world_def)
  have h3: "ex_target Tempo \<noteq> Some 0" by (simp add: ex_target_def)
  note c = filterAndSelectTracks_permutation_of_top_ranked
             [where tracks = "[track_a, track_b]" and w = ex_world and accessToken = "''token''"
                and response = "[None, Some ex_target]" and targetFeatures = ex_target
                and targetCount = 1 and g = "\<lambda>n. draw_zero", OF h1 h2 h3]
  show ?thesis by (rule conjI [OF h1 conjI [OF h2 conjI [OF h3 c]]])
qed

section \<open>Genre selection\<close>

lemma filter_is_intersectInOrder:
  "filter (\<lambda>genre. genre \<in> set available) profileGenres = intersectInOrder profileGenres available"
  by (induction profileGenres) auto

text \<open>
  Claim C8. The genre step returns the genres of the profile that the service offers, in the
  profile's order, cut to the first three; when there is none it returns the one genre
  \<open>pop\<close>. The walk of the specification yields exactly the common genres, as a subsequence of
  the profile's list.
\<close>

theorem filterGenres_intersection:
  "filterGenres profileGenres available =
     (if intersectInOrder profileGenres available = [] then [''pop'']
      else take 3 (intersectInOrder profileGenres available))
   \<and> set (intersectInOrder profileGenres available) = set profileGenres \<inter> set available
   \<and> subseq (intersectInOrder profileGenres available) profileGenres
   \<and> length (filterGenres profileGenres available) \<le> 3"
proof -
  have eq: "filter (\<lambda>genre. genre \<in> set available) profileGenres
              = intersectInOrder profileGenres available"
    by (rule filter_is_intersectInOrder)
  have "set (intersectInOrder profileGenres available) = set profileGenres \<inter> set available"
    unfolding eq [symmetric] by auto
  moreover have "subseq (intersectInOrder profileGenres available) profileGenres"
    unfolding eq [symmetric] by simp
  ultimately show ?thesis
    by (auto simp: filterGenres_def Let_def eq)
qed

theorem filterGenres_intersection_witness:
  "filterGenres (profile_genres happy_profile) [''pop'', ''dance'', ''classical''] = [''pop'', ''dance'']
   \<and> filterGenres (profile_genres sad_profile) [''pop'', ''dance'', ''classical''] = [''pop'']
   \<and> filterGenres (profile_genres calm_profile) [''lo-fi'', ''acoustic'', ''ambient'', ''new-age'']
       = [''ambient'', ''new-age'', ''lo-fi'']"
  using filterGenres_intersection [of "profile_genres happy_profile" "[''pop'', ''dance'', ''classical'']"]
    filterGenres_intersection [of "profile_genres sad_profile" "[''pop'', ''dance'', ''classical'']"]
    filterGenres_intersection [of "profile_genres calm_profile"
      "[''lo-fi'', ''acoustic'', ''ambient'', ''new-age'']"]
  by (simp add: happy_profile_def sad_profile_def calm_profile_def)

section \<open>Unknown moods\<close>

lemma moodProfiles_None:
  "moodProfiles e = None \<longleftrightarrow>
     e \<notin> {''happy'', ''sad'', ''energetic'', ''calm'', ''anxious'', ''nostalgic''}"
  by (simp add: moodProfiles_def)

lemma moodProfiles_get_Undefined:
  "moodProfiles_get e = Undefined \<longleftrightarrow>
     e \<notin> {''happy'', ''sad'', ''energetic'', ''calm'', ''anxious'', ''nostalgic''}
     \<and> e \<notin> set Object_prototype_names"
  by (simp add: moodProfiles_get_def moodProfiles_def)

text \<open>
  Claim C7, as the code has it. For a primary emotion that is none of the six keys and names
  no member that the table inherits, the \<open>try\<close> block throws the unknown-mood error at the
  lookup, \<open>generatePlaylist\<close> fails with the one error of its \<open>catch\<close> clause, and no
  request is made.
\<close>

theorem generatePlaylist_unknown_mood:
  assumes "primaryEmotion m \<notin> {''happy'', ''sad'', ''energetic'', ''calm'', ''anxious'', ''nostalgic''}"
    and "primaryEmotion m \<notin> set Object_prototype_names"
  shows "generatePlaylist_try w m accessToken userId g = (Inl (UnknownMood (primaryEmotion m)), [], g)
       \<and> generatePlaylist w m accessToken userId g = (Inl FailedToGeneratePlaylist, [], g)"
proof -
  have "moodProfiles_get (primaryEmotion m) = Undefined"
    using assms by (simp add: moodProfiles_get_Undefined)
  then show ?thesis by (simp add: generatePlaylist_def generatePlaylist_try_def)
qed

theorem generatePlaylist_unknown_mood_witness:
  "''furious'' \<notin> {''happy'', ''sad'', ''energetic'', ''calm'', ''anxious'', ''nostalgic''}
   \<and> ''furious'' \<notin> set Object_prototype_names
   \<and> generatePlaylist_try ex_world (ex_mood ''furious'') ''token'' ''user'' (\<lambda>n. draw_half)
       = (Inl (UnknownMood ''furious''), [], \<lambda>n. draw_half)
   \<and> generatePlaylist ex_world (ex_mood ''furious'') ''token'' ''user'' (\<lambda>n. draw_half)
       = (Inl FailedToGeneratePlaylist, [], \<lambda>n. draw_half)"
proof -
  have h1: "primaryEmotion (ex_mood ''furious'')
              \<notin> {''happy'', ''sad'', ''energetic'', ''calm'', ''anxious'', ''nostalgic''}"
    by (simp add: ex_mood_def)
  have h2: "primaryEmotion (ex_mood ''furious'') \<notin> set Object_prototype_names"
    by (simp add: ex_mood_def Object_prototype_names_def)
  have e: "primaryEmotion (ex_mood ''furious'') = ''furious''" by (simp add: ex_mood_def)
  show ?thesis
    using h1 h2 generatePlaylist_unknown_mood
            [OF h1 h2, of ex_world "''token''" "''user''" "\<lambda>n. draw_half"]
    by (simp only: e simp_thms)
qed

text \<open>
  The error that \<open>generatePlaylist\<close> fails with for the emotion \<open>furious\<close> is the error of
  the \<open>catch\<close> clause, not the unknown-mood error.
\<close>

theorem generatePlaylist_unknown_mood_generic_error:
  "fst (generatePlaylist ex_world (ex_mood ''furious'') ''token'' ''user'' (\<lambda>n. draw_zero))
     = Inl FailedToGeneratePlaylist
   \<and> FailedToGeneratePlaylist \<noteq> UnknownMood ''furious''"
  by (simp add: generatePlaylist_def generatePlaylist_try_def moodProfiles_get_def moodProfiles_def
      Object_prototype_names_def ex_mood_def)

text \<open>
  With the name of an inherited member for an emotion the lookup check passes: the genre
  request is sent before the run fails.
\<close>

lemma generatePlaylist_inherited_member:
  "generatePlaylist_try ex_world (ex_mood ''constructor'') ''token'' ''user'' g
     = (Inl TypeError, [GetAvailableGenres ''token''], g)
   \<and> generatePlaylist ex_world (ex_mood ''constructor'') ''token'' ''user'' g
     = (Inl FailedToGeneratePlaylist, [GetAvailableGenres ''token''], g)"
  by (simp add: generatePlaylist_def generatePlaylist_try_def moodProfiles_get_def moodProfiles_def
      Object_prototype_names_def ex_mood_def getAvailableGenres_def ex_world_def)

lemma searchByMoodKeywords_undefined:
  assumes "primaryEmotion m \<notin> {''happy'', ''sad'', ''energetic'', ''calm'', ''anxious'', ''nostalgic''}"
    and "primaryEmotion m \<notin> set Object_prototype_names"
  shows "searchByMoodKeywords w m accessToken = (Inr [], [])"
proof -
  have "moodProfiles_get (primaryEmotion m) = Undefined"
    using assms by (simp add: moodProfiles_get_Undefined)
  then show ?thesis by (simp add: searchByMoodKeywords_def)
qed

text \<open>
  Claim C10. For a primary emotion that is none of the six keys the keyword search returns
  the empty list, raises nothing and sends no search. The code does so where the lookup
  yields \<open>undefined\<close> (\<open>searchByMoodKeywords_undefined\<close>). For the emotion \<open>constructor\<close>
  the lookup yields the member that the table inherits, the check \<open>!profile\<close> passes, and
  the search fails with a type error on \<open>profile.keywords\<close>; no search is sent.
\<close>

theorem searchByMoodKeywords_inherited_member_throws:
  "''constructor'' \<notin> set [''happy'', ''sad'', ''energetic'', ''calm'', ''anxious'', ''nostalgic'']
   \<and> searchByMoodKeywords ex_world (ex_mood ''constructor'') ''token'' = (Inl TypeError, [])"
  by (simp add: searchByMoodKeywords_def moodProfiles_get_def moodProfiles_def
      Object_prototype_names_def ex_mood_def)

end
